theory Spec2Isabelle
  imports Main "HOL-Library.AList"
begin

section \<open>The command registry of packages/core/src/common/command.ts\<close>

text \<open>
  The registry keeps two tables, \<^verbatim>\<open>_commands\<close> (command id to Command) and
  \<^verbatim>\<open>_handlers\<close> (command id to an array of handlers). Both are plain
  JavaScript objects, created by \<^verbatim>\<open>{}\<close>, and used as dictionaries: a read
  \<^verbatim>\<open>table[id]\<close> finds the own property of that name and, where there is none, the
  member of that name that every object inherits from \<^verbatim>\<open>Object.prototype\<close>.

  Handlers are objects: \<^verbatim>\<open>indexOf\<close> compares them by identity. A handler is
  therefore a reference into a store of handler objects, and the arrays of the registry
  hold references. The registry never writes to a handler object, so the store is a
  parameter of the operations that call into a handler.

  \<^verbatim>\<open>onStart\<close>, which hands the registry to each contribution, is not modelled:
  what it does is what the contributions do with the operations below.
\<close>

subsection \<open>Data\<close>

record Command =
  command_id :: string
  label :: "string option"
  iconClass :: "string option"

text \<open>
  What a call does: it returns a value or throws. What is thrown is an
  \<^verbatim>\<open>Error\<close> or a \<^verbatim>\<open>TypeError\<close> with its message, as the registry and the
  runtime throw them, or any other value, which foreign code may throw.
\<close>

datatype ('a, 'e) completion = Return 'a | Throw 'e

datatype js_error = Error string | TypeError string

datatype 'e thrown = JsError js_error | OtherValue 'e

text \<open>
  \<open>'v\<close> is the type of JavaScript values (\<^verbatim>\<open>any\<close>). The three members of a
  handler are foreign code: each returns or throws.
\<close>

record ('v, 'e) CommandHandler =
  execute :: "'v list \<Rightarrow> ('v, 'e thrown) completion"
  isEnabled :: "('v list \<Rightarrow> (bool, 'e thrown) completion) option"
  isVisible :: "('v list \<Rightarrow> (bool, 'e thrown) completion) option"

type_synonym handler_ref = nat

type_synonym ('v, 'e) handler_store = "handler_ref \<Rightarrow> ('v, 'e) CommandHandler"

text \<open>
  \<open>u_commands\<close> holds the own properties of \<^verbatim>\<open>_commands\<close>, in insertion order of
  the keys (the order matters to \<^verbatim>\<open>Object.keys\<close>); \<open>u_handlers\<close> holds the own
  properties of \<^verbatim>\<open>_handlers\<close>, which is only ever read at a given key.
\<close>

record CommandRegistry =
  u_commands :: "(string \<times> Command) list"
  u_handlers :: "string \<rightharpoonup> handler_ref list"

definition emptyRegistry :: CommandRegistry where
  "emptyRegistry = \<lparr>u_commands = [], u_handlers = Map.empty\<rparr>"

text \<open>
  The disposables the registry hands out are closures. Each constructor stands for one
  closure of the source, with the variables it captures:
  \<^item> \<open>CommandDisposable cid\<close>: \<^verbatim>\<open>delete this._commands[command.id]\<close>;
  \<^item> \<open>HandlerDisposable cid h\<close>: the closure of \<^verbatim>\<open>registerHandler\<close>, over the
    array of \<open>cid\<close> and the handler \<open>h\<close>;
  \<^item> \<open>DisposableCollection ds\<close>: the collection built by \<^verbatim>\<open>registerCommand\<close>,
    holding the disposables pushed to it and not yet released, in the order of the
    pushes.
\<close>

datatype disposable =
    CommandDisposable string
  | HandlerDisposable string handler_ref
  | DisposableCollection "disposable list"

subsection \<open>Property reads\<close>

text \<open>
  The names of the members of \<^verbatim>\<open>Object.prototype\<close>. Each of these members is a
  function, or, for \<^verbatim>\<open>__proto__\<close>, the prototype object itself: a value that is
  truthy, is not iterable and has no \<^verbatim>\<open>push\<close>.
\<close>

definition Object_prototype_names :: "string list" where
  "Object_prototype_names =
     [''constructor'', ''__defineGetter__'', ''__defineSetter__'', ''hasOwnProperty'',
      ''__lookupGetter__'', ''__lookupSetter__'', ''isPrototypeOf'',
      ''propertyIsEnumerable'', ''toString'', ''valueOf'', ''__proto__'',
      ''toLocaleString'']"

text \<open>What \<^verbatim>\<open>table[id]\<close> evaluates to.\<close>

datatype 'a property = Own 'a | Inherited | Undefined

definition getProperty :: "(string \<rightharpoonup> 'a) \<Rightarrow> string \<Rightarrow> 'a property" where
  "getProperty own k =
     (case own k of
        Some v \<Rightarrow> Own v
      | None \<Rightarrow> if k \<in> set Object_prototype_names then Inherited else Undefined)"

subsection \<open>Array primitives\<close>

text \<open>\<^verbatim>\<open>Array.prototype.indexOf\<close>: the first index holding the element, or -1.\<close>

fun indexOf :: "'a list \<Rightarrow> 'a \<Rightarrow> int" where
  "indexOf [] x = -1"
| "indexOf (y # ys) x =
     (if y = x then 0 else (let i = indexOf ys x in if i < 0 then -1 else i + 1))"

text \<open>\<^verbatim>\<open>xs.splice(idx, 1)\<close> for an index in range: the array without that position.\<close>

definition splice1 :: "nat \<Rightarrow> 'a list \<Rightarrow> 'a list" where
  "splice1 idx xs = take idx xs @ drop (Suc idx) xs"

subsection \<open>Registration\<close>

text \<open>
  Every operation returns the registry it leaves behind, also when it throws.
  \<^verbatim>\<open>getCommand\<close> returns what the read of the table gives, an inherited member
  included.
\<close>

definition getCommand :: "CommandRegistry \<Rightarrow> string \<Rightarrow> Command property" where
  "getCommand r cid = getProperty (map_of (u_commands r)) cid"

text \<open>
  The duplicate check is the truthiness of \<^verbatim>\<open>this._commands[command.id]\<close>: a
  Command and an inherited member are both truthy. The assignment is reached for a name
  that has no property, own or inherited, and adds the key at the end, which is what
  \<^const>\<open>AList.update\<close> does for a key that is new.
\<close>

definition doRegisterCommand ::
  "CommandRegistry \<Rightarrow> Command \<Rightarrow> (js_error + disposable) \<times> CommandRegistry" where
  "doRegisterCommand r command =
     (case getProperty (map_of (u_commands r)) (command_id command) of
        Undefined \<Rightarrow>
          (Inr (CommandDisposable (command_id command)),
           r\<lparr>u_commands := AList.update (command_id command) command (u_commands r)\<rparr>)
      | _ \<Rightarrow>
          (Inl (Error (''A command '' @ command_id command @ '' is already registered.'')), r))"

text \<open>
  \<^verbatim>\<open>let handlers = this._handlers[commandId]; if (!handlers) { ... = handlers = [] }
  handlers.push(handler)\<close>: an inherited member is truthy, so no array is stored, and
  the call of its \<^verbatim>\<open>push\<close>, which it does not have, throws a TypeError.
\<close>

definition registerHandler ::
  "CommandRegistry \<Rightarrow> string \<Rightarrow> handler_ref \<Rightarrow> (js_error + disposable) \<times> CommandRegistry" where
  "registerHandler r commandId handler =
     (case getProperty (u_handlers r) commandId of
        Inherited \<Rightarrow> (Inl (TypeError ''handlers.push is not a function''), r)
      | Undefined \<Rightarrow>
          (Inr (HandlerDisposable commandId handler),
           r\<lparr>u_handlers := (u_handlers r)(commandId \<mapsto> [] @ [handler])\<rparr>)
      | Own handlers \<Rightarrow>
          (Inr (HandlerDisposable commandId handler),
           r\<lparr>u_handlers := (u_handlers r)(commandId \<mapsto> handlers @ [handler])\<rparr>))"

definition registerCommand ::
  "CommandRegistry \<Rightarrow> Command \<Rightarrow> handler_ref option
     \<Rightarrow> (js_error + disposable) \<times> CommandRegistry" where
  "registerCommand r command handler =
     (case handler of
        Some h \<Rightarrow>
          (case doRegisterCommand r command of
             (Inl e, r1) \<Rightarrow> (Inl e, r1)
           | (Inr d1, r1) \<Rightarrow>
               (case registerHandler r1 (command_id command) h of
                  (Inl e, r2) \<Rightarrow> (Inl e, r2)
                | (Inr d2, r2) \<Rightarrow> (Inr (DisposableCollection [d1, d2]), r2)))
      | None \<Rightarrow> doRegisterCommand r command)"

subsection \<open>Release\<close>

text \<open>
  A release returns how it completed, the disposable as the release leaves it, and the
  registry as the release leaves it. The two closures of the source have no state of
  their own, and nothing in them throws: \<^verbatim>\<open>delete\<close> of a key of a plain object,
  \<^verbatim>\<open>indexOf\<close> and \<^verbatim>\<open>splice\<close> of an array.

  The closure of \<^verbatim>\<open>registerHandler\<close> holds the array object itself. The source
  stores an array at a key of \<^verbatim>\<open>_handlers\<close> once and never replaces or deletes
  it, so the captured array is the one found at that key; where no array is stored (a
  state the source cannot reach while the disposable exists) the release changes nothing.
\<close>

definition disposeHandler :: "string \<Rightarrow> handler_ref \<Rightarrow> CommandRegistry \<Rightarrow> CommandRegistry" where
  "disposeHandler commandId handler r =
     (case u_handlers r commandId of
        None \<Rightarrow> r
      | Some handlers \<Rightarrow>
          (let idx = indexOf handlers handler
           in if idx \<ge> 0
              then r\<lparr>u_handlers := (u_handlers r)(commandId \<mapsto> splice1 (nat idx) handlers)\<rparr>
              else r))"

definition disposeCommand :: "string \<Rightarrow> CommandRegistry \<Rightarrow> CommandRegistry" where
  "disposeCommand cid r = r\<lparr>u_commands := AList.delete cid (u_commands r)\<rparr>"

text \<open>
  Modelled from the spec: \<^verbatim>\<open>DisposableCollection.dispose\<close> (./disposable is not among
  the sources). The spec: the composite, "on release, undoes both the command
  registration and the handler registration", each child's release being independent of
  the other's; and of every disposable, "releasing more than once must be safe
  (idempotent) and must not throw", a second release being "a no-op (no error, no
  effect)". So the release of a collection runs the releases of the disposables it
  holds, one after the other in the order of the list, and leaves the collection
  holding none; a further release finds nothing to run. The theorems about a composite
  speak of both orders of its children.
\<close>

fun disposeCollection ::
  "(CommandRegistry \<Rightarrow> (unit, js_error) completion \<times> CommandRegistry) list
     \<Rightarrow> CommandRegistry \<Rightarrow> (unit, js_error) completion \<times> CommandRegistry" where
  "disposeCollection [] r = (Return (), r)"
| "disposeCollection (release # rest) r =
     (case release r of
        (Throw e, r1) \<Rightarrow> (Throw e, r1)
      | (Return u, r1) \<Rightarrow> disposeCollection rest r1)"

text \<open>The release operation of each disposable.\<close>

primrec dispose ::
  "disposable \<Rightarrow> CommandRegistry
     \<Rightarrow> (unit, js_error) completion \<times> disposable \<times> CommandRegistry" where
  "dispose (CommandDisposable cid) =
     (\<lambda>r. (Return (), CommandDisposable cid, disposeCommand cid r))"
| "dispose (HandlerDisposable cid h) =
     (\<lambda>r. (Return (), HandlerDisposable cid h, disposeHandler cid h r))"
| "dispose (DisposableCollection ds) =
     (\<lambda>r. case disposeCollection
                 (map (\<lambda>d s. (fst (dispose d s), snd (snd (dispose d s)))) ds) r of
             (c, r1) \<Rightarrow> (c, DisposableCollection [], r1))"

subsection \<open>Dispatch\<close>

text \<open>
  The loop of \<^verbatim>\<open>getActiveHandler\<close>:
  \<^verbatim>\<open>if (!handler.isEnabled || handler.isEnabled(...args)) return handler\<close>.
  The predicate is foreign code called with no handler around it, so what it throws
  ends the scan. A predicate is taken to return a boolean, as its type says, and to
  leave the registry alone.
\<close>

fun firstEnabled ::
  "('v, 'e) handler_store \<Rightarrow> 'v list \<Rightarrow> handler_ref list
     \<Rightarrow> (handler_ref option, 'e thrown) completion" where
  "firstEnabled st args [] = Return None"
| "firstEnabled st args (handler # rest) =
     (case isEnabled (st handler) of
        None \<Rightarrow> Return (Some handler)
      | Some p \<Rightarrow>
          (case p args of
             Throw e \<Rightarrow> Throw e
           | Return b \<Rightarrow> if b then Return (Some handler) else firstEnabled st args rest))"

fun firstVisible ::
  "('v, 'e) handler_store \<Rightarrow> 'v list \<Rightarrow> handler_ref list
     \<Rightarrow> (handler_ref option, 'e thrown) completion" where
  "firstVisible st args [] = Return None"
| "firstVisible st args (handler # rest) =
     (case isVisible (st handler) of
        None \<Rightarrow> Return (Some handler)
      | Some p \<Rightarrow>
          (case p args of
             Throw e \<Rightarrow> Throw e
           | Return b \<Rightarrow> if b then Return (Some handler) else firstVisible st args rest))"

text \<open>
  \<^verbatim>\<open>const handlers = this._handlers[commandId]; if (handlers) { for (const handler of
  handlers) ... } return undefined\<close>: an inherited member is truthy and not iterable,
  so the \<^verbatim>\<open>for ... of\<close> throws a TypeError.
\<close>

definition getActiveHandler ::
  "('v, 'e) handler_store \<Rightarrow> CommandRegistry \<Rightarrow> string \<Rightarrow> 'v list
     \<Rightarrow> (handler_ref option, 'e thrown) completion" where
  "getActiveHandler st r commandId args =
     (case getProperty (u_handlers r) commandId of
        Own handlers \<Rightarrow> firstEnabled st args handlers
      | Inherited \<Rightarrow> Throw (JsError (TypeError ''handlers is not iterable''))
      | Undefined \<Rightarrow> Return None)"

definition getVisibleHandler ::
  "('v, 'e) handler_store \<Rightarrow> CommandRegistry \<Rightarrow> string \<Rightarrow> 'v list
     \<Rightarrow> (handler_ref option, 'e thrown) completion" where
  "getVisibleHandler st r commandId args =
     (case getProperty (u_handlers r) commandId of
        Own handlers \<Rightarrow> firstVisible st args handlers
      | Inherited \<Rightarrow> Throw (JsError (TypeError ''handlers is not iterable''))
      | Undefined \<Rightarrow> Return None)"

definition registry_isEnabled ::
  "('v, 'e) handler_store \<Rightarrow> CommandRegistry \<Rightarrow> string \<Rightarrow> 'v list
     \<Rightarrow> (bool, 'e thrown) completion" where
  "registry_isEnabled st r command args =
     (case getActiveHandler st r command args of
        Throw e \<Rightarrow> Throw e
      | Return handler \<Rightarrow> Return (handler \<noteq> None))"

definition registry_isVisible ::
  "('v, 'e) handler_store \<Rightarrow> CommandRegistry \<Rightarrow> string \<Rightarrow> 'v list
     \<Rightarrow> (bool, 'e thrown) completion" where
  "registry_isVisible st r command args =
     (case getVisibleHandler st r command args of
        Throw e \<Rightarrow> Throw e
      | Return handler \<Rightarrow> Return (handler \<noteq> None))"

text \<open>
  What \<^verbatim>\<open>executeCommand\<close> hands back: it throws, or it returns the promise
  \<^verbatim>\<open>Promise.resolve(v)\<close> or the promise \<^verbatim>\<open>Promise.reject(msg)\<close>.
  \<open>Promise_resolve v\<close> is the promise that \<^verbatim>\<open>Promise.resolve\<close> makes of \<open>v\<close>:
  fulfilled with \<open>v\<close>, or following \<open>v\<close> when \<open>v\<close> is a promise itself.
  \<^verbatim>\<open>execute\<close> is foreign code; the registry does nothing after the call but wrap
  its result, so the model of \<^verbatim>\<open>executeCommand\<close> returns the outcome alone.
  \<^verbatim>\<open>JSON.stringify\<close> belongs to the runtime and is a parameter: on an array it
  returns a string or throws (a cyclic structure, a BigInt, a throwing
  \<^verbatim>\<open>toJSON\<close>).
\<close>

datatype ('v, 'e) outcome = Thrown "'e thrown" | Promise_resolve 'v | Promise_reject string

definition noHandlerMessage :: "string \<Rightarrow> string" where
  "noHandlerMessage command =
     ''The command '' @ [CHR 0x27] @ command @ [CHR 0x27] @
     '' cannot be executed. There are no active handlers available for the command.''"

definition executeCommand ::
  "('v list \<Rightarrow> (string, 'e thrown) completion) \<Rightarrow> ('v, 'e) handler_store \<Rightarrow> CommandRegistry
     \<Rightarrow> string \<Rightarrow> 'v list \<Rightarrow> ('v, 'e) outcome" where
  "executeCommand JSON_stringify st r command args =
     (case getActiveHandler st r command args of
        Throw e \<Rightarrow> Thrown e
      | Return (Some handler) \<Rightarrow>
          (case execute (st handler) args of
             Throw e \<Rightarrow> Thrown e
           | Return v \<Rightarrow> Promise_resolve v)
      | Return None \<Rightarrow>
          (if length args > 0
           then (case JSON_stringify args of
                   Throw e \<Rightarrow> Thrown e
                 | Return s \<Rightarrow>
                     Promise_reject (noHandlerMessage command @ '' (args: '' @ s @ '')''))
           else Promise_reject (noHandlerMessage command)))"

subsection \<open>Enumeration\<close>

text \<open>
  \<^verbatim>\<open>Object.keys\<close> lists the own keys: those that are array indices (the canonical
  decimal numerals up to \<open>2^32 - 2\<close>) first, in ascending numeric order, and then the
  other keys in insertion order.
\<close>

definition isDigit :: "char \<Rightarrow> bool" where
  "isDigit c = (48 \<le> (of_char c :: nat) \<and> (of_char c :: nat) \<le> 57)"

definition decimalValue :: "string \<Rightarrow> nat" where
  "decimalValue s = foldl (\<lambda>n c. 10 * n + (of_char c - 48)) 0 s"

definition isArrayIndex :: "string \<Rightarrow> bool" where
  "isArrayIndex s =
     (s \<noteq> [] \<and> list_all isDigit s \<and> (s = ''0'' \<or> hd s \<noteq> CHR ''0'')
      \<and> decimalValue s \<le> 4294967294)"

definition Object_keys :: "(string \<times> 'a) list \<Rightarrow> string list" where
  "Object_keys kvs =
     sort_key decimalValue (filter isArrayIndex (map fst kvs))
     @ filter (\<lambda>k. \<not> isArrayIndex k) (map fst kvs)"

definition commandIds :: "CommandRegistry \<Rightarrow> string list" where
  "commandIds r = Object_keys (u_commands r)"

text \<open>
  \<^verbatim>\<open>const cmd = this.getCommand(id); if (cmd) commands.push(cmd)\<close>, for the ids of
  \<^verbatim>\<open>commandIds\<close>, which are own keys.
\<close>

definition commands :: "CommandRegistry \<Rightarrow> Command list" where
  "commands r =
     List.map_filter
       (\<lambda>cid. case getCommand r cid of Own cmd \<Rightarrow> Some cmd | _ \<Rightarrow> None)
       (commandIds r)"

subsection \<open>Notions used in the statements\<close>

text \<open>
  What the check of one handler in the scan gives: a handler without the predicate
  counts as enabled.
\<close>

definition enabledFor ::
  "('v, 'e) handler_store \<Rightarrow> 'v list \<Rightarrow> handler_ref \<Rightarrow> (bool, 'e thrown) completion" where
  "enabledFor st args h = (case isEnabled (st h) of None \<Rightarrow> Return True | Some p \<Rightarrow> p args)"

text \<open>The array stored for an id, empty when none is stored.\<close>

definition handlersOf :: "CommandRegistry \<Rightarrow> string \<Rightarrow> handler_ref list" where
  "handlersOf r cid = (case u_handlers r cid of None \<Rightarrow> [] | Some hs \<Rightarrow> hs)"

subsection \<open>A small runtime for the examples\<close>

text \<open>
  The examples run over a fragment of the JavaScript values: \<^verbatim>\<open>null\<close>, the
  booleans, the integer-valued numbers of the safe range, and \<open>JCyclic\<close>, an object that
  refers to itself (\<^verbatim>\<open>const o = {}; o.self = o\<close>). On arrays of these
  \<^verbatim>\<open>JSON.stringify\<close> renders the elements between brackets, separated by commas,
  and throws a TypeError at the cyclic object.
\<close>

datatype jsval = JNull | JBool bool | JNum int | JCyclic

fun showNat :: "nat \<Rightarrow> string" where
  "showNat n =
     (if n < 10 then [char_of (48 + n)] else showNat (n div 10) @ [char_of (48 + n mod 10)])"

definition showInt :: "int \<Rightarrow> string" where
  "showInt i = (if i < 0 then ''-'' @ showNat (nat (- i)) else showNat (nat i))"

fun renderValue :: "jsval \<Rightarrow> (string, jsval thrown) completion" where
  "renderValue JNull = Return ''null''"
| "renderValue (JBool b) = Return (if b then ''true'' else ''false'')"
| "renderValue (JNum i) = Return (showInt i)"
| "renderValue JCyclic = Throw (JsError (TypeError ''Converting circular structure to JSON''))"

fun renderAll :: "jsval list \<Rightarrow> (string list, jsval thrown) completion" where
  "renderAll [] = Return []"
| "renderAll (v # vs) =
     (case renderValue v of
        Throw e \<Rightarrow> Throw e
      | Return s \<Rightarrow>
          (case renderAll vs of Throw e \<Rightarrow> Throw e | Return ss \<Rightarrow> Return (s # ss)))"

fun joinComma :: "string list \<Rightarrow> string" where
  "joinComma [] = []"
| "joinComma [s] = s"
| "joinComma (s # t # ss) = s @ '','' @ joinComma (t # ss)"

definition JSON_stringify_array :: "jsval list \<Rightarrow> (string, jsval thrown) completion" where
  "JSON_stringify_array vs =
     (case renderAll vs of
        Throw e \<Rightarrow> Throw e
      | Return ss \<Rightarrow> Return (''['' @ joinComma ss @ '']''))"

text \<open>
  The handler objects of the examples: 5 is disabled, 2 is enabled and returns 42, the
  predicate of 4 throws, and every other reference has no predicate and throws from
  \<^verbatim>\<open>execute\<close>.
\<close>

definition exampleStore :: "(jsval, jsval) handler_store" where
  "exampleStore h =
     (if h = 5 then
        \<lparr>execute = (\<lambda>args. Return (JNum 1)),
         isEnabled = Some (\<lambda>args. Return False), isVisible = None\<rparr>
      else if h = 2 then
        \<lparr>execute = (\<lambda>args. Return (JNum 42)),
         isEnabled = Some (\<lambda>args. Return True), isVisible = None\<rparr>
      else if h = 4 then
        \<lparr>execute = (\<lambda>args. Return JNull),
         isEnabled = Some (\<lambda>args. Throw (OtherValue (JNum 0))), isVisible = None\<rparr>
      else
        \<lparr>execute = (\<lambda>args. Throw (JsError (Error ''boom''))),
         isEnabled = None, isVisible = None\<rparr>)"

definition exampleCommand :: "string \<Rightarrow> Command" where
  "exampleCommand cid = \<lparr>command_id = cid, label = None, iconClass = None\<rparr>"

text \<open>The registry after \<^verbatim>\<open>registerCommand({id: "X"})\<close>.\<close>

definition registeredX :: CommandRegistry where
  "registeredX = snd (registerCommand emptyRegistry (exampleCommand ''X'') None)"

text \<open>The registry after \<^verbatim>\<open>registerCommand({id: "X"}, h)\<close> with the handler 2.\<close>

definition registeredXWithHandler :: CommandRegistry where
  "registeredXWithHandler = snd (registerCommand emptyRegistry (exampleCommand ''X'') (Some 2))"

text \<open>The registry with the handlers \<open>hs\<close> registered for \<^verbatim>\<open>X\<close>, in this order.\<close>

definition handlersX :: "handler_ref list \<Rightarrow> CommandRegistry" where
  "handlersX hs = foldl (\<lambda>r h. snd (registerHandler r ''X'' h)) emptyRegistry hs"

section \<open>Facts about the primitives\<close>

lemma getProperty_Some: "own k = Some v \<Longrightarrow> getProperty own k = Own v"
  by (simp add: getProperty_def)

lemma getProperty_Own_iff: "getProperty own k = Own v \<longleftrightarrow> own k = Some v"
  by (simp add: getProperty_def split: option.splits)

lemma getProperty_Undefined_iff:
  "getProperty own k = Undefined \<longleftrightarrow> own k = None \<and> k \<notin> set Object_prototype_names"
  by (simp add: getProperty_def split: option.splits)

lemma getProperty_Inherited_iff:
  "getProperty own k = Inherited \<longleftrightarrow> own k = None \<and> k \<in> set Object_prototype_names"
  by (simp add: getProperty_def split: option.splits)

lemma toString_inherited: "''toString'' \<in> set Object_prototype_names"
  by (simp add: Object_prototype_names_def)

lemma X_not_inherited: "''X'' \<notin> set Object_prototype_names"
  by (simp add: Object_prototype_names_def)

lemma empty_not_inherited: "'''' \<notin> set Object_prototype_names"
  by (simp add: Object_prototype_names_def)

lemma indexOf_notin: "x \<notin> set xs \<Longrightarrow> indexOf xs x = -1"
  by (induction xs) (auto simp: Let_def)

lemma indexOf_in: "x \<in> set xs \<Longrightarrow> 0 \<le> indexOf xs x \<and> nat (indexOf xs x) < length xs"
  by (induction xs) (auto simp: Let_def)

lemma indexOf_nonneg_iff: "0 \<le> indexOf xs x \<longleftrightarrow> x \<in> set xs"
  by (cases "x \<in> set xs") (simp_all add: indexOf_notin indexOf_in)

text \<open>Searching and splicing removes the first occurrence.\<close>

lemma splice1_indexOf: "x \<in> set xs \<Longrightarrow> splice1 (nat (indexOf xs x)) xs = remove1 x xs"
proof (induction xs)
  case Nil
  then show ?case by simp
next
  case (Cons y ys)
  show ?case
  proof (cases "y = x")
    case True
    then show ?thesis by (simp add: splice1_def)
  next
    case False
    with Cons.prems have m: "x \<in> set ys" by simp
    from indexOf_in[OF m] have nn: "0 \<le> indexOf ys x" by simp
    then have "nat (indexOf ys x + 1) = Suc (nat (indexOf ys x))" by simp
    with False nn Cons.IH[OF m] show ?thesis
      by (simp add: splice1_def Let_def)
  qed
qed

lemma disposeHandler_handlers:
  "u_handlers (disposeHandler cid h r) =
     (case u_handlers r cid of None \<Rightarrow> u_handlers r
      | Some hs \<Rightarrow> (u_handlers r)(cid \<mapsto> remove1 h hs))"
proof (cases "u_handlers r cid")
  case None
  then show ?thesis by (simp add: disposeHandler_def)
next
  case (Some hs)
  show ?thesis
  proof (cases "h \<in> set hs")
    case True
    with Some show ?thesis
      using indexOf_in[OF True] splice1_indexOf[OF True]
      by (simp add: disposeHandler_def Let_def)
  next
    case False
    then have "remove1 h hs = hs" by (simp add: remove1_idem)
    with Some False show ?thesis
      using indexOf_notin[OF False]
      by (auto simp add: disposeHandler_def Let_def)
  qed
qed

lemma disposeHandler_commands: "u_commands (disposeHandler cid h r) = u_commands r"
  by (simp add: disposeHandler_def Let_def split: option.splits)

lemma set_Object_keys: "set (Object_keys kvs) = fst ` set kvs"
  by (auto simp: Object_keys_def)

section \<open>Dispatch\<close>

lemma firstEnabled_Cons:
  "firstEnabled st args (h # hs) =
     (case enabledFor st args h of
        Throw e \<Rightarrow> Throw e
      | Return b \<Rightarrow> if b then Return (Some h) else firstEnabled st args hs)"
  by (simp add: enabledFor_def split: option.splits)




lemma getActiveHandler_stored:
  "u_handlers r cid = Some hs \<Longrightarrow> getActiveHandler st r cid args = firstEnabled st args hs"
  by (simp add: getActiveHandler_def getProperty_Some)

lemma registerHandler_success:
  "registerHandler r cid h = (Inr d, r1) \<Longrightarrow>
     d = HandlerDisposable cid h
     \<and> r1 = r\<lparr>u_handlers := (u_handlers r)(cid \<mapsto> handlersOf r cid @ [h])\<rparr>
     \<and> (u_handlers r cid = None \<longrightarrow> cid \<notin> set Object_prototype_names)"
  by (auto simp: registerHandler_def handlersOf_def getProperty_def
        split: option.splits if_splits)

lemma registerHandler_plain:
  "cid \<notin> set Object_prototype_names \<Longrightarrow>
     registerHandler r cid h =
       (Inr (HandlerDisposable cid h),
        r\<lparr>u_handlers := (u_handlers r)(cid \<mapsto> handlersOf r cid @ [h])\<rparr>)"
  by (simp add: registerHandler_def handlersOf_def getProperty_def split: option.splits)

lemma handlersX_X: "u_handlers (handlersX (h # hs)) ''X'' = Some (h # hs)"
proof -
  have step: "u_handlers (foldl (\<lambda>r h. snd (registerHandler r ''X'' h)) r hs) ''X''
                = Some (handlersOf r ''X'' @ hs)"
    if "u_handlers r ''X'' \<noteq> None" for r hs
    using that
  proof (induction hs arbitrary: r)
    case Nil
    then show ?case by (auto simp: handlersOf_def)
  next
    case (Cons a hs)
    let ?r = "snd (registerHandler r ''X'' a)"
    have u: "u_handlers ?r ''X'' = Some (handlersOf r ''X'' @ [a])"
      by (simp add: registerHandler_plain X_not_inherited)
    then have "u_handlers ?r ''X'' \<noteq> None" by simp
    from Cons.IH[OF this] u show ?case by (simp add: handlersOf_def)
  qed
  let ?r = "snd (registerHandler emptyRegistry ''X'' h)"
  have u: "u_handlers ?r ''X'' = Some [h]"
    by (simp add: registerHandler_plain X_not_inherited handlersOf_def emptyRegistry_def)
  then have "u_handlers ?r ''X'' \<noteq> None" by simp
  from step[OF this, of hs] u show ?thesis
    by (simp add: handlersX_def handlersOf_def)
qed

lemma handlersX_commands: "u_commands (handlersX hs) = []"
proof -
  have "u_commands (foldl (\<lambda>r h. snd (registerHandler r ''X'' h)) r hs) = u_commands r" for r
    by (induction hs arbitrary: r) (simp_all add: registerHandler_plain X_not_inherited)
  then show ?thesis by (simp add: handlersX_def emptyRegistry_def)
qed



lemma example_predicates:
  "enabledFor exampleStore args 5 = Return False"
  "enabledFor exampleStore args 2 = Return True"
  "enabledFor exampleStore args 3 = Return True"
  "enabledFor exampleStore args 4 = Throw (OtherValue (JNum 0))"
  by (simp_all add: enabledFor_def exampleStore_def)


section \<open>Execution\<close>

lemma example_active_X:
  "getActiveHandler exampleStore (handlersX [2]) ''X'' [] = Return (Some 2)"
  by (simp add: getActiveHandler_stored[OF handlersX_X] firstEnabled_Cons example_predicates
        del: firstEnabled.simps(2))



text \<open>
  C2. When a handler is active for the id and the arguments, \<^verbatim>\<open>executeCommand\<close> calls
  its \<^verbatim>\<open>execute\<close> with these arguments. What the call returns comes back as
  \<^verbatim>\<open>Promise.resolve\<close> of it (a handler returning 42 gives the promise resolved with
  42); what the call throws is thrown on, as it is.
\<close>

theorem executeCommand_invokes_active_handler:
  "getActiveHandler st r command args = Return (Some h) \<Longrightarrow>
     (\<forall>v. execute (st h) args = Return v \<longrightarrow>
        executeCommand JSON_stringify st r command args = Promise_resolve v)
     \<and> (\<forall>e. execute (st h) args = Throw e \<longrightarrow>
        executeCommand JSON_stringify st r command args = Thrown e)"
  by (simp add: executeCommand_def)

theorem executeCommand_invokes_active_handler_witness:
  "getActiveHandler exampleStore (handlersX [2]) ''X'' [] = Return (Some 2)
   \<and> execute (exampleStore 2) [] = Return (JNum 42)
   \<and> executeCommand JSON_stringify_array exampleStore (handlersX [2]) ''X'' []
       = Promise_resolve (JNum 42)"
proof -
  have x: "execute (exampleStore 2) [] = Return (JNum 42)"
    by (simp add: exampleStore_def)
  from executeCommand_invokes_active_handler[OF example_active_X, of JSON_stringify_array] x
  have "executeCommand JSON_stringify_array exampleStore (handlersX [2]) ''X'' []
          = Promise_resolve (JNum 42)"
    by blast
  with example_active_X x show ?thesis by simp
qed

text \<open>
  The three ways out of \<^verbatim>\<open>executeCommand\<close> when the scan returns no handler: the
  message alone, the message with the rendering of the arguments, or the exception of
  the rendering.
\<close>

lemma executeCommand_no_active_handler:
  "getActiveHandler st r command args = Return None \<Longrightarrow>
     (args = [] \<longrightarrow>
        executeCommand JSON_stringify st r command args = Promise_reject (noHandlerMessage command))
     \<and> (\<forall>s. args \<noteq> [] \<and> JSON_stringify args = Return s \<longrightarrow>
          executeCommand JSON_stringify st r command args
            = Promise_reject (noHandlerMessage command @ '' (args: '' @ s @ '')''))
     \<and> (\<forall>e. args \<noteq> [] \<and> JSON_stringify args = Throw e \<longrightarrow>
          executeCommand JSON_stringify st r command args = Thrown e)"
  by (auto simp: executeCommand_def)

lemma executeCommand_missing_example:
  "executeCommand JSON_stringify_array exampleStore emptyRegistry ''missing'' []
     = Promise_reject ''The command 'missing' cannot be executed. There are no active handlers available for the command.''"
  by (simp add: executeCommand_def getActiveHandler_def getProperty_def emptyRegistry_def
        noHandlerMessage_def Object_prototype_names_def)

lemma executeCommand_missing_args_example:
  "executeCommand JSON_stringify_array exampleStore emptyRegistry ''missing'' [JNum 42, JBool True]
     = Promise_reject ''The command 'missing' cannot be executed. There are no active handlers available for the command. (args: [42,true])''"
  by code_simp




text \<open>
  C3. With no active handler \<^verbatim>\<open>executeCommand\<close> is to give a rejected promise, never
  a throw. The source renders the arguments with \<^verbatim>\<open>JSON.stringify\<close> before it
  calls \<^verbatim>\<open>Promise.reject\<close>, so the exception of a rendering that fails leaves
  \<^verbatim>\<open>executeCommand\<close> as a throw: for the id \<^verbatim>\<open>missing\<close>, which has no handler,
  and an argument that refers to itself, the result is the thrown TypeError and not a
  rejected promise.
\<close>

theorem executeCommand_unrenderable_args_throws:
  "executeCommand JSON_stringify_array exampleStore emptyRegistry ''missing'' [JCyclic]
     = Thrown (JsError (TypeError ''Converting circular structure to JSON''))"
  by (simp add: executeCommand_def getActiveHandler_def getProperty_def emptyRegistry_def
        JSON_stringify_array_def Object_prototype_names_def)

section \<open>Registration\<close>

lemma doRegisterCommand_duplicate:
  "getCommand r (command_id command) \<noteq> Undefined \<Longrightarrow>
     doRegisterCommand r command =
       (Inl (Error (''A command '' @ command_id command @ '' is already registered.'')), r)"
  by (cases "getProperty (map_of (u_commands r)) (command_id command)")
     (simp_all add: doRegisterCommand_def getCommand_def)

lemma doRegisterCommand_fresh:
  "getCommand r (command_id command) = Undefined \<Longrightarrow>
     doRegisterCommand r command =
       (Inr (CommandDisposable (command_id command)),
        r\<lparr>u_commands := AList.update (command_id command) command (u_commands r)\<rparr>)"
  by (simp add: doRegisterCommand_def getCommand_def)

lemma doRegisterCommand_success:
  "doRegisterCommand r command = (Inr d, r1) \<Longrightarrow>
     getCommand r (command_id command) = Undefined
     \<and> d = CommandDisposable (command_id command)
     \<and> r1 = r\<lparr>u_commands := AList.update (command_id command) command (u_commands r)\<rparr>"
  by (cases "getProperty (map_of (u_commands r)) (command_id command)")
     (auto simp: doRegisterCommand_def getCommand_def)

lemma getCommand_Undefined_D:
  "getCommand r k = Undefined \<Longrightarrow> k \<notin> set Object_prototype_names"
  by (simp add: getCommand_def getProperty_Undefined_iff)

lemma getCommand_update:
  "getCommand (r\<lparr>u_commands := AList.update k c (u_commands r)\<rparr>) k' =
     (if k' = k then Own c else getCommand r k')"
  by (simp add: getCommand_def getProperty_def update_conv')

lemma getCommand_disposeCommand:
  "getCommand (disposeCommand k r) k' =
     (if k' = k then (if k \<in> set Object_prototype_names then Inherited else Undefined)
      else getCommand r k')"
  by (simp add: getCommand_def getProperty_def disposeCommand_def delete_conv')

lemma getCommand_handlers_update:
  "getCommand (r\<lparr>u_handlers := f\<rparr>) = getCommand r"
  by (rule ext) (simp add: getCommand_def)

lemma disposeCommand_handlers: "u_handlers (disposeCommand k r) = u_handlers r"
  by (simp add: disposeCommand_def)

lemma registerCommand_fresh:
  "getCommand r (command_id command) = Undefined \<Longrightarrow>
     registerCommand r command handler =
       (case handler of
          None \<Rightarrow>
            (Inr (CommandDisposable (command_id command)),
             r\<lparr>u_commands := AList.update (command_id command) command (u_commands r)\<rparr>)
        | Some h \<Rightarrow>
            (Inr (DisposableCollection
                    [CommandDisposable (command_id command),
                     HandlerDisposable (command_id command) h]),
             r\<lparr>u_commands := AList.update (command_id command) command (u_commands r),
               u_handlers := (u_handlers r)
                 (command_id command \<mapsto> handlersOf r (command_id command) @ [h])\<rparr>))"
proof -
  assume fresh: "getCommand r (command_id command) = Undefined"
  then have "command_id command \<notin> set Object_prototype_names"
    by (rule getCommand_Undefined_D)
  with fresh show ?thesis
    by (simp add: registerCommand_def doRegisterCommand_fresh registerHandler_plain
          handlersOf_def split: option.splits)
qed

lemma registerCommand_duplicate:
  "getCommand r (command_id command) \<noteq> Undefined \<Longrightarrow>
     registerCommand r command handler =
       (Inl (Error (''A command '' @ command_id command @ '' is already registered.'')), r)"
  by (simp add: registerCommand_def doRegisterCommand_duplicate split: option.splits)

lemma registerCommand_example:
  "registerCommand emptyRegistry (exampleCommand ''X'') None
     = (Inr (CommandDisposable ''X''), registeredX)"
  by (simp add: registeredX_def registerCommand_def doRegisterCommand_def getProperty_def
        emptyRegistry_def exampleCommand_def X_not_inherited)

lemma registeredX_eq:
  "registeredX = \<lparr>u_commands = [(''X'', exampleCommand ''X'')], u_handlers = Map.empty\<rparr>"
  by (simp add: registeredX_def registerCommand_def doRegisterCommand_def getProperty_def
        emptyRegistry_def exampleCommand_def X_not_inherited)

lemma registeredX_command: "getCommand registeredX ''X'' = Own (exampleCommand ''X'')"
  by (simp add: registeredX_eq getCommand_def getProperty_def)

lemma registerCommand_example_with_handler:
  "registerCommand emptyRegistry (exampleCommand ''X'') (Some 2)
     = (Inr (DisposableCollection [CommandDisposable ''X'', HandlerDisposable ''X'' 2]),
        registeredXWithHandler)"
  by (simp add: registeredXWithHandler_def registerCommand_def doRegisterCommand_def
        registerHandler_def getProperty_def emptyRegistry_def exampleCommand_def
        X_not_inherited)

lemma registeredXWithHandler_eq:
  "registeredXWithHandler =
     \<lparr>u_commands = [(''X'', exampleCommand ''X'')], u_handlers = [''X'' \<mapsto> [2]]\<rparr>"
  by (simp add: registeredXWithHandler_def registerCommand_def doRegisterCommand_def
        registerHandler_def getProperty_def emptyRegistry_def exampleCommand_def
        X_not_inherited)

text \<open>
  C4. Registering a Command under an id that is registered throws the duplicate error
  and leaves the registry as it was: the Command of the first registration is still the
  one \<^verbatim>\<open>getCommand\<close> returns, and the handler arrays are untouched also when the call
  brought a handler, since \<^verbatim>\<open>doRegisterCommand\<close> throws before
  \<^verbatim>\<open>registerHandler\<close> is reached.
\<close>

theorem registerCommand_duplicate_fails:
  "getCommand r (command_id command) = Own c \<Longrightarrow>
     registerCommand r command handler =
       (Inl (Error (''A command '' @ command_id command @ '' is already registered.'')), r)
     \<and> getCommand (snd (registerCommand r command handler)) (command_id command) = Own c
     \<and> u_handlers (snd (registerCommand r command handler)) = u_handlers r"
  by (simp add: registerCommand_duplicate)

theorem registerCommand_duplicate_fails_witness:
  "fst (registerCommand emptyRegistry (exampleCommand ''X'') None) = Inr (CommandDisposable ''X'')
   \<and> getCommand registeredX ''X'' = Own (exampleCommand ''X'')
   \<and> registerCommand registeredX ((exampleCommand ''X'')\<lparr>label := Some ''again''\<rparr>) (Some 2)
       = (Inl (Error ''A command X is already registered.''), registeredX)
   \<and> getCommand
        (snd (registerCommand registeredX ((exampleCommand ''X'')\<lparr>label := Some ''again''\<rparr>)
               (Some 2))) ''X''
       = Own (exampleCommand ''X'')
   \<and> u_handlers
        (snd (registerCommand registeredX ((exampleCommand ''X'')\<lparr>label := Some ''again''\<rparr>)
               (Some 2))) ''X''
       = None"
proof -
  have i: "command_id ((exampleCommand ''X'')\<lparr>label := Some ''again''\<rparr>) = ''X''"
    by (simp add: exampleCommand_def)
  have f: "fst (registerCommand emptyRegistry (exampleCommand ''X'') None)
             = Inr (CommandDisposable ''X'')"
    by (simp add: registerCommand_example)
  have h: "u_handlers registeredX ''X'' = None"
    by (simp add: registeredX_eq)
  from registeredX_command i
  have g: "getCommand registeredX
             (command_id ((exampleCommand ''X'')\<lparr>label := Some ''again''\<rparr>))
           = Own (exampleCommand ''X'')"
    by simp
  from registerCommand_duplicate_fails[OF g, of "Some 2"] i f h registeredX_command
  show ?thesis by simp
qed

text \<open>
  C10. The one check of \<^verbatim>\<open>registerCommand\<close> is the duplicate check, the truthiness
  of \<^verbatim>\<open>this._commands[command.id]\<close>: the call throws exactly when that read finds
  something. Nothing asks the id to be non-empty: for a Command whose id is the empty
  string, not registered yet, the call succeeds, with or without a handler; the empty
  string is among \<^verbatim>\<open>commandIds\<close> afterwards and \<^verbatim>\<open>getCommand\<close> returns the
  Command for it.
\<close>

theorem registerCommand_accepts_empty_id:
  "((\<exists>e. fst (registerCommand r command handler) = Inl e)
      \<longleftrightarrow> getCommand r (command_id command) \<noteq> Undefined)
   \<and> (command_id command = '''' \<and> (\<forall>c. getCommand r '''' \<noteq> Own c) \<longrightarrow>
        (\<exists>d. fst (registerCommand r command handler) = Inr d)
        \<and> '''' \<in> set (commandIds (snd (registerCommand r command handler)))
        \<and> getCommand (snd (registerCommand r command handler)) '''' = Own command)"
proof (intro conjI impI)
  show "(\<exists>e. fst (registerCommand r command handler) = Inl e)
      \<longleftrightarrow> getCommand r (command_id command) \<noteq> Undefined"
  proof (cases "getCommand r (command_id command) = Undefined")
    case True
    then show ?thesis
      by (cases handler) (simp_all add: registerCommand_fresh)
  next
    case False
    then show ?thesis by (simp add: registerCommand_duplicate)
  qed
next
  assume a: "command_id command = '''' \<and> (\<forall>c. getCommand r '''' \<noteq> Own c)"
  then have "getCommand r '''' \<noteq> Inherited"
    by (simp add: getCommand_def getProperty_Inherited_iff empty_not_inherited)
  with a have fresh: "getCommand r (command_id command) = Undefined"
    by (cases "getCommand r ''''") simp_all
  let ?r1 = "r\<lparr>u_commands := AList.update '''' command (u_commands r)\<rparr>"
  have k: "'''' \<in> set (commandIds ?r1)"
    by (simp add: commandIds_def set_Object_keys dom_update)
  have g: "getCommand ?r1 '''' = Own command"
    by (simp add: getCommand_update)
  from a k g have "(\<exists>d. fst (registerCommand r command handler) = Inr d)
        \<and> '''' \<in> set (commandIds (snd (registerCommand r command handler)))
        \<and> getCommand (snd (registerCommand r command handler)) '''' = Own command"
    by (cases handler)
       (simp_all add: registerCommand_fresh[OF fresh] commandIds_def getCommand_def)
  then show "\<exists>d. fst (registerCommand r command handler) = Inr d"
    and "'''' \<in> set (commandIds (snd (registerCommand r command handler)))"
    and "getCommand (snd (registerCommand r command handler)) '''' = Own command"
    by simp_all
qed

theorem registerCommand_accepts_empty_id_witness:
  "command_id (exampleCommand '''') = ''''
   \<and> getCommand emptyRegistry '''' = Undefined
   \<and> fst (registerCommand emptyRegistry (exampleCommand '''') None) = Inr (CommandDisposable '''')
   \<and> '''' \<in> set (commandIds (snd (registerCommand emptyRegistry (exampleCommand '''') None)))
   \<and> getCommand (snd (registerCommand emptyRegistry (exampleCommand '''') None)) ''''
       = Own (exampleCommand '''')
   \<and> getCommand emptyRegistry ''toString'' = Inherited
   \<and> fst (registerCommand emptyRegistry (exampleCommand ''toString'') None)
       = Inl (Error ''A command toString is already registered.'')"
proof -
  have i: "command_id (exampleCommand '''') = ''''"
    by (simp add: exampleCommand_def)
  have n: "getCommand emptyRegistry '''' = Undefined"
    by (simp add: getCommand_def getProperty_def emptyRegistry_def empty_not_inherited)
  then have n': "\<forall>c. getCommand emptyRegistry '''' \<noteq> Own c" by simp
  have f: "fst (registerCommand emptyRegistry (exampleCommand '''') None)
             = Inr (CommandDisposable '''')"
    by (simp add: registerCommand_def doRegisterCommand_def getProperty_def emptyRegistry_def
          exampleCommand_def empty_not_inherited)
  have t: "getCommand emptyRegistry ''toString'' = Inherited"
    by (simp add: getCommand_def getProperty_def emptyRegistry_def toString_inherited)
  have ft: "fst (registerCommand emptyRegistry (exampleCommand ''toString'') None)
              = Inl (Error ''A command toString is already registered.'')"
    by (simp add: registerCommand_def doRegisterCommand_def getProperty_def emptyRegistry_def
          exampleCommand_def toString_inherited)
  note w = registerCommand_accepts_empty_id
             [where r = emptyRegistry and command = "exampleCommand ''''" and handler = None,
              THEN conjunct2, rule_format, OF conjI, OF i n']
  from i n f w[THEN conjunct2, THEN conjunct1] w[THEN conjunct2, THEN conjunct2] t ft
  show ?thesis by (intro conjI)
qed

section \<open>Release\<close>

lemma disposeHandler_eq:
  "disposeHandler cid h r =
     r\<lparr>u_handlers :=
         (case u_handlers r cid of None \<Rightarrow> u_handlers r
          | Some hs \<Rightarrow> (u_handlers r)(cid \<mapsto> remove1 h hs))\<rparr>"
  by (rule CommandRegistry.equality)
     (simp_all add: disposeHandler_handlers disposeHandler_commands)

lemma getCommand_disposeHandler: "getCommand (disposeHandler cid h r) = getCommand r"
  by (rule ext) (simp add: getCommand_def disposeHandler_commands)

lemma getActiveHandler_cong:
  "u_handlers r cid = u_handlers s cid \<Longrightarrow>
     getActiveHandler st r cid args = getActiveHandler st s cid args"
  by (simp add: getActiveHandler_def getProperty_def)

lemma dispose_command_handler_commute:
  "disposeCommand k (disposeHandler cid h r) = disposeHandler cid h (disposeCommand k r)"
  by (simp add: disposeHandler_eq disposeCommand_def split: option.splits)

lemma disposeCommand_twice: "disposeCommand k (disposeCommand k r) = disposeCommand k r"
  by (simp add: disposeCommand_def delete_idem)

lemma handlersOf_disposeCommand: "handlersOf (disposeCommand k r) = handlersOf r"
  by (rule ext) (simp add: handlersOf_def disposeCommand_handlers)

lemma count_le_one_remove1: "count_list xs x \<le> 1 \<Longrightarrow> x \<notin> set (remove1 x xs)"
proof (induction xs)
  case Nil
  then show ?case by simp
next
  case (Cons y ys)
  show ?case
  proof (cases "y = x")
    case True
    with Cons.prems have "count_list ys x = 0" by simp
    with True show ?thesis by (simp add: count_list_0_iff)
  next
    case False
    with Cons show ?thesis by simp
  qed
qed

lemma disposeHandler_twice:
  "count_list (handlersOf r cid) h \<le> 1 \<Longrightarrow>
     disposeHandler cid h (disposeHandler cid h r) = disposeHandler cid h r"
proof (cases "u_handlers r cid")
  case None
  then show ?thesis by (simp add: disposeHandler_def)
next
  case (Some hs)
  assume "count_list (handlersOf r cid) h \<le> 1"
  with Some have "h \<notin> set (remove1 h hs)"
    by (simp add: handlersOf_def count_le_one_remove1)
  then have "remove1 h (remove1 h hs) = remove1 h hs"
    by (rule remove1_idem)
  with Some show ?thesis
    by (simp add: disposeHandler_eq)
qed

lemma remove1_first_occurrence:
  "x \<in> set xs \<Longrightarrow> \<exists>ys zs. xs = ys @ x # zs \<and> x \<notin> set ys \<and> remove1 x xs = ys @ zs"
proof -
  assume "x \<in> set xs"
  then obtain ys zs where s: "xs = ys @ x # zs" "x \<notin> set ys"
    by (auto dest: split_list_first)
  then have "remove1 x xs = ys @ zs" by (simp add: remove1_append)
  with s show ?thesis by blast
qed

text \<open>The releases of the disposables that the registration calls return.\<close>

lemma dispose_command:
  "dispose (CommandDisposable k) s = (Return (), CommandDisposable k, disposeCommand k s)"
  by simp

lemma dispose_handler:
  "dispose (HandlerDisposable k h) s = (Return (), HandlerDisposable k h, disposeHandler k h s)"
  by simp

lemma dispose_composite:
  "dispose (DisposableCollection [CommandDisposable k, HandlerDisposable k h]) s
     = (Return (), DisposableCollection [], disposeHandler k h (disposeCommand k s))"
  by simp

lemma dispose_composite_rev:
  "dispose (DisposableCollection [HandlerDisposable k h, CommandDisposable k]) s
     = (Return (), DisposableCollection [], disposeCommand k (disposeHandler k h s))"
  by simp

lemma dispose_released_collection:
  "dispose (DisposableCollection []) s = (Return (), DisposableCollection [], s)"
  by simp

lemma registerCommand_Some_success:
  "registerCommand r command (Some h) = (Inr d, r1) \<Longrightarrow>
     getCommand r (command_id command) = Undefined
     \<and> d = DisposableCollection
             [CommandDisposable (command_id command), HandlerDisposable (command_id command) h]
     \<and> u_commands r1 = AList.update (command_id command) command (u_commands r)
     \<and> u_handlers r1 =
         (u_handlers r)(command_id command \<mapsto> handlersOf r (command_id command) @ [h])"
proof (cases "getCommand r (command_id command) = Undefined")
  case True
  assume "registerCommand r command (Some h) = (Inr d, r1)"
  with True show ?thesis by (auto simp: registerCommand_fresh)
next
  case False
  assume "registerCommand r command (Some h) = (Inr d, r1)"
  with False show ?thesis by (simp add: registerCommand_duplicate)
qed

lemma registerCommand_None_success:
  "registerCommand r command None = (Inr d, r1) \<Longrightarrow>
     getCommand r (command_id command) = Undefined
     \<and> d = CommandDisposable (command_id command)
     \<and> r1 = r\<lparr>u_commands := AList.update (command_id command) command (u_commands r)\<rparr>"
  by (simp add: registerCommand_def doRegisterCommand_success)

text \<open>
  C8. Releasing the disposable of a Command registration deletes the entry of the id
  from the command table and nothing else: the handler arrays of all ids stay as they
  are, so the dispatch of every id is as before, and the other Commands stay registered.
  The release returns normally.
\<close>

theorem dispose_command_keeps_handlers:
  "doRegisterCommand r command = (Inr d, r1) \<Longrightarrow>
     d = CommandDisposable (command_id command)
     \<and> (case dispose d s of
          (c, d', s') \<Rightarrow>
            c = Return ()
            \<and> u_handlers s' = u_handlers s
            \<and> getCommand s' (command_id command) = Undefined
            \<and> (\<forall>cid. cid \<noteq> command_id command \<longrightarrow> getCommand s' cid = getCommand s cid)
            \<and> (\<forall>cid args. getActiveHandler st s' cid args = getActiveHandler st s cid args))"
proof -
  assume reg: "doRegisterCommand r command = (Inr d, r1)"
  note s = doRegisterCommand_success[OF reg]
  from s have d: "d = CommandDisposable (command_id command)" by simp
  from s have "getCommand r (command_id command) = Undefined" by simp
  then have p: "command_id command \<notin> set Object_prototype_names"
    by (rule getCommand_Undefined_D)
  have "getActiveHandler st (disposeCommand k s) cid args = getActiveHandler st s cid args"
    for k cid args
    by (rule getActiveHandler_cong) (simp add: disposeCommand_handlers)
  with d p show ?thesis
    by (simp add: disposeCommand_handlers getCommand_disposeCommand)
qed

theorem dispose_command_keeps_handlers_witness:
  "doRegisterCommand emptyRegistry (exampleCommand ''X'') = (Inr (CommandDisposable ''X''), registeredX)
   \<and> registerHandler registeredX ''X'' 2
       = (Inr (HandlerDisposable ''X'' 2), registeredXWithHandler)
   \<and> getCommand registeredXWithHandler ''X'' = Own (exampleCommand ''X'')
   \<and> getActiveHandler exampleStore registeredXWithHandler ''X'' [] = Return (Some 2)
   \<and> fst (dispose (CommandDisposable ''X'') registeredXWithHandler) = Return ()
   \<and> u_handlers (snd (snd (dispose (CommandDisposable ''X'') registeredXWithHandler)))
       = u_handlers registeredXWithHandler
   \<and> getCommand (snd (snd (dispose (CommandDisposable ''X'') registeredXWithHandler))) ''X''
       = Undefined
   \<and> getActiveHandler exampleStore
        (snd (snd (dispose (CommandDisposable ''X'') registeredXWithHandler))) ''X'' []
       = Return (Some 2)"
proof -
  let ?s = registeredXWithHandler
  have reg: "doRegisterCommand emptyRegistry (exampleCommand ''X'')
               = (Inr (CommandDisposable ''X''), registeredX)"
    using registerCommand_example by (simp add: registerCommand_def)
  have rh: "registerHandler registeredX ''X'' 2 = (Inr (HandlerDisposable ''X'' 2), ?s)"
    by (simp add: registerHandler_plain X_not_inherited registeredX_eq
          registeredXWithHandler_eq handlersOf_def)
  have i: "command_id (exampleCommand ''X'') = ''X''"
    by (simp add: exampleCommand_def)
  have c: "getCommand ?s ''X'' = Own (exampleCommand ''X'')"
    by (simp add: registeredXWithHandler_eq getCommand_def getProperty_def)
  have a: "getActiveHandler exampleStore ?s ''X'' [] = Return (Some 2)"
    by (simp add: getActiveHandler_def getProperty_def registeredXWithHandler_eq
          exampleStore_def)
  from dispose_command_keeps_handlers[OF reg, of ?s exampleStore] i reg rh c a
  show ?thesis by (simp split: prod.splits)
qed

text \<open>
  C6. The disposable of \<^verbatim>\<open>registerHandler(id, h)\<close> is released on an array of the id
  that holds \<open>h\<close>, as the array does from the registration on. The release returns
  normally. It takes the first occurrence of \<open>h\<close> out of the array and keeps the other
  entries in their order; the arrays of the other ids and the command table stay as
  they are; and the dispatch for the id afterwards is the scan of the entries that
  remain.
\<close>

theorem dispose_handler_removes_one:
  "registerHandler r cid h = (Inr d, r1) \<Longrightarrow>
     (\<exists>hs. u_handlers r1 cid = Some hs \<and> h \<in> set hs)
     \<and> (\<forall>s hs. u_handlers s cid = Some hs \<and> h \<in> set hs \<longrightarrow>
          (case dispose d s of
             (c, d', s') \<Rightarrow>
               c = Return ()
               \<and> (\<exists>xs ys. hs = xs @ h # ys \<and> h \<notin> set xs
                     \<and> u_handlers s' cid = Some (xs @ ys)
                     \<and> (\<forall>args. getActiveHandler st s' cid args
                                 = firstEnabled st args (xs @ ys)))
               \<and> (\<forall>k. k \<noteq> cid \<longrightarrow> u_handlers s' k = u_handlers s k)
               \<and> u_commands s' = u_commands s))"
proof -
  assume reg: "registerHandler r cid h = (Inr d, r1)"
  note rs = registerHandler_success[OF reg]
  from rs have d: "d = HandlerDisposable cid h" by simp
  from rs have "u_handlers r1 cid = Some (handlersOf r cid @ [h])" by simp
  then have first: "\<exists>hs. u_handlers r1 cid = Some hs \<and> h \<in> set hs" by simp
  have rest: "case dispose d s of
             (c, d', s') \<Rightarrow>
               c = Return ()
               \<and> (\<exists>xs ys. hs = xs @ h # ys \<and> h \<notin> set xs
                     \<and> u_handlers s' cid = Some (xs @ ys)
                     \<and> (\<forall>args. getActiveHandler st s' cid args
                                 = firstEnabled st args (xs @ ys)))
               \<and> (\<forall>k. k \<noteq> cid \<longrightarrow> u_handlers s' k = u_handlers s k)
               \<and> u_commands s' = u_commands s"
    if a: "u_handlers s cid = Some hs \<and> h \<in> set hs" for s hs
  proof -
    let ?s' = "disposeHandler cid h s"
    from a obtain xs ys where s1: "hs = xs @ h # ys" and s2: "h \<notin> set xs"
        and s3: "remove1 h hs = xs @ ys"
      using remove1_first_occurrence[of h hs] by blast
    from a have u: "u_handlers ?s' = (u_handlers s)(cid \<mapsto> remove1 h hs)"
      by (simp add: disposeHandler_handlers)
    with s3 have u': "u_handlers ?s' cid = Some (xs @ ys)" by simp
    then have g: "\<forall>args. getActiveHandler st ?s' cid args = firstEnabled st args (xs @ ys)"
      by (simp add: getActiveHandler_stored)
    from u have o: "\<forall>k. k \<noteq> cid \<longrightarrow> u_handlers ?s' k = u_handlers s k"
      by simp
    have c: "u_commands ?s' = u_commands s"
      by (simp add: disposeHandler_commands)
    from s1 s2 u' g have e: "\<exists>xs ys. hs = xs @ h # ys \<and> h \<notin> set xs
                     \<and> u_handlers ?s' cid = Some (xs @ ys)
                     \<and> (\<forall>args. getActiveHandler st ?s' cid args
                                 = firstEnabled st args (xs @ ys))"
      by blast
    from e o c show ?thesis by (simp add: d)
  qed
  from first rest show ?thesis by blast
qed

theorem dispose_handler_removes_one_witness:
  "registerHandler (handlersX [5]) ''X'' 2 = (Inr (HandlerDisposable ''X'' 2), handlersX [5, 2])
   \<and> u_handlers (handlersX [5, 2, 3]) ''X'' = Some [5, 2, 3]
   \<and> fst (dispose (HandlerDisposable ''X'' 2) (handlersX [5, 2, 3])) = Return ()
   \<and> u_handlers (snd (snd (dispose (HandlerDisposable ''X'' 2) (handlersX [5, 2, 3])))) ''X''
       = Some [5, 3]
   \<and> getActiveHandler exampleStore
        (snd (snd (dispose (HandlerDisposable ''X'' 2) (handlersX [5, 2, 3])))) ''X'' []
       = Return (Some 3)
   \<and> u_handlers (snd (snd (dispose (HandlerDisposable ''X'' 2) (handlersX [5, 2, 3])))) ''Y''
       = u_handlers (handlersX [5, 2, 3]) ''Y''
   \<and> u_commands (snd (snd (dispose (HandlerDisposable ''X'' 2) (handlersX [5, 2, 3]))))
       = u_commands (handlersX [5, 2, 3])"
proof -
  let ?d = "HandlerDisposable ''X'' 2"
  let ?s = "handlersX [5, 2, 3]"
  let ?s' = "snd (snd (dispose ?d ?s))"
  have reg: "registerHandler (handlersX [5]) ''X'' 2 = (Inr ?d, handlersX [5, 2])"
    by (simp add: handlersX_def registerHandler_plain X_not_inherited)
  have m: "u_handlers ?s ''X'' = Some [5, 2, 3] \<and> (2::nat) \<in> set [5, 2, 3]"
    by (simp add: handlersX_X)
  note t = dispose_handler_removes_one[OF reg, of exampleStore, THEN conjunct2, rule_format,
             OF m]
  from t have c: "fst (dispose ?d ?s) = Return ()"
    by (simp split: prod.splits)
  from t have e: "\<exists>xs ys. [5, 2, 3] = xs @ (2::nat) # ys \<and> 2 \<notin> set xs
                     \<and> u_handlers ?s' ''X'' = Some (xs @ ys)
                     \<and> (\<forall>args. getActiveHandler exampleStore ?s' ''X'' args
                                 = firstEnabled exampleStore args (xs @ ys))"
    by (simp split: prod.splits)
  from t have o: "u_handlers ?s' ''Y'' = u_handlers ?s ''Y''"
    by (simp split: prod.splits)
  from t have k: "u_commands ?s' = u_commands ?s"
    by (simp split: prod.splits)
  from e obtain xs ys where s: "[5, 2, 3] = xs @ (2::nat) # ys" "2 \<notin> set xs"
      and u: "u_handlers ?s' ''X'' = Some (xs @ ys)"
      and g: "\<forall>args. getActiveHandler exampleStore ?s' ''X'' args
                = firstEnabled exampleStore args (xs @ ys)"
    by (elim exE conjE)
  from s have "xs = [5] \<and> ys = [3]"
    by (auto simp: append_eq_Cons_conv Cons_eq_append_conv)
  with u g have u': "u_handlers ?s' ''X'' = Some [5, 3]"
    and g': "getActiveHandler exampleStore ?s' ''X'' [] = Return (Some 3)"
    by (simp_all add: firstEnabled_Cons example_predicates del: firstEnabled.simps(2))
  from reg m[THEN conjunct1] c u' g' o k show ?thesis by (intro conjI)
qed

section \<open>Release twice, and the composite\<close>

text \<open>
  Against C5 as it is stated: with the same handler object registered twice for one id,
  the second release of the disposable of \<^verbatim>\<open>registerHandler\<close> finds the object
  again and takes the second registration out.
\<close>

theorem dispose_twice_counterexample:
  "registerHandler emptyRegistry ''X'' 7 = (Inr (HandlerDisposable ''X'' 7), handlersX [7])
   \<and> registerHandler (handlersX [7]) ''X'' 7 = (Inr (HandlerDisposable ''X'' 7), handlersX [7, 7])
   \<and> u_handlers (handlersX [7, 7]) ''X'' = Some [7, 7]
   \<and> fst (snd (dispose (HandlerDisposable ''X'' 7) (handlersX [7, 7]))) = HandlerDisposable ''X'' 7
   \<and> u_handlers (snd (snd (dispose (HandlerDisposable ''X'' 7) (handlersX [7, 7])))) ''X''
       = Some [7]
   \<and> u_handlers
        (snd (snd (dispose (HandlerDisposable ''X'' 7)
                     (snd (snd (dispose (HandlerDisposable ''X'' 7) (handlersX [7, 7]))))))) ''X''
       = Some []
   \<and> snd (snd (dispose (HandlerDisposable ''X'' 7)
                 (snd (snd (dispose (HandlerDisposable ''X'' 7) (handlersX [7, 7]))))))
       \<noteq> snd (snd (dispose (HandlerDisposable ''X'' 7) (handlersX [7, 7])))"
proof -
  let ?d = "HandlerDisposable ''X'' 7"
  let ?s1 = "snd (snd (dispose ?d (handlersX [7, 7])))"
  let ?s2 = "snd (snd (dispose ?d ?s1))"
  have r1: "registerHandler emptyRegistry ''X'' 7 = (Inr ?d, handlersX [7])"
    by (simp add: handlersX_def registerHandler_plain X_not_inherited)
  have r2: "registerHandler (handlersX [7]) ''X'' 7 = (Inr ?d, handlersX [7, 7])"
    by (simp add: handlersX_def registerHandler_plain X_not_inherited)
  have o: "fst (snd (dispose ?d (handlersX [7, 7]))) = ?d"
    by simp
  have a: "u_handlers ?s1 ''X'' = Some [7]"
    by (simp add: disposeHandler_handlers handlersX_X)
  then have b: "u_handlers ?s2 ''X'' = Some []"
    by (simp add: disposeHandler_handlers)
  from a b have n: "?s2 \<noteq> ?s1"
    by auto
  from r1 r2 handlersX_X[of 7 "[7]"] o a b n show ?thesis by (intro conjI)
qed

text \<open>
  C5, as the code has it. Take a disposable returned by a registration call, release
  it, and release again what the first release left. Both releases return normally.
  For the disposable of a Command registration the second release changes nothing. For
  the disposable of \<^verbatim>\<open>registerHandler(id, h)\<close> the second release changes nothing
  when the array of the id held \<open>h\<close> at most once at the first release; in general the
  two releases take the first two occurrences of \<open>h\<close> out of the array. For the
  composite of \<^verbatim>\<open>registerCommand(cmd, h)\<close> the second release changes nothing: the
  collection holds no disposable after its first release.
\<close>

theorem dispose_twice_when_registered_once:
  "(registerCommand r command None = (Inr d, r1) \<longrightarrow>
      (case dispose d s of
         (c1, d1, s1) \<Rightarrow>
           (case dispose d1 s1 of
              (c2, d2, s2) \<Rightarrow> c1 = Return () \<and> c2 = Return () \<and> s2 = s1)))
   \<and> (registerHandler r cid h = (Inr d, r1) \<longrightarrow>
      (case dispose d s of
         (c1, d1, s1) \<Rightarrow>
           (case dispose d1 s1 of
              (c2, d2, s2) \<Rightarrow>
                c1 = Return () \<and> c2 = Return ()
                \<and> (count_list (handlersOf s cid) h \<le> 1 \<longrightarrow> s2 = s1)
                \<and> (\<forall>hs. u_handlers s cid = Some hs \<longrightarrow>
                      u_handlers s2 cid = Some (remove1 h (remove1 h hs))))))
   \<and> (registerCommand r command (Some h) = (Inr d, r1) \<longrightarrow>
      (case dispose d s of
         (c1, d1, s1) \<Rightarrow>
           (case dispose d1 s1 of
              (c2, d2, s2) \<Rightarrow> c1 = Return () \<and> c2 = Return () \<and> s2 = s1)))"
proof (intro conjI impI)
  assume "registerCommand r command None = (Inr d, r1)"
  then have "d = CommandDisposable (command_id command)"
    by (simp add: registerCommand_None_success)
  then show "case dispose d s of
         (c1, d1, s1) \<Rightarrow>
           (case dispose d1 s1 of
              (c2, d2, s2) \<Rightarrow> c1 = Return () \<and> c2 = Return () \<and> s2 = s1)"
    by (simp add: disposeCommand_twice)
next
  assume "registerHandler r cid h = (Inr d, r1)"
  then have "d = HandlerDisposable cid h"
    by (simp add: registerHandler_success)
  then show "case dispose d s of
         (c1, d1, s1) \<Rightarrow>
           (case dispose d1 s1 of
              (c2, d2, s2) \<Rightarrow>
                c1 = Return () \<and> c2 = Return ()
                \<and> (count_list (handlersOf s cid) h \<le> 1 \<longrightarrow> s2 = s1)
                \<and> (\<forall>hs. u_handlers s cid = Some hs \<longrightarrow>
                      u_handlers s2 cid = Some (remove1 h (remove1 h hs))))"
    by (simp add: disposeHandler_twice disposeHandler_handlers)
next
  assume "registerCommand r command (Some h) = (Inr d, r1)"
  then have "d = DisposableCollection
             [CommandDisposable (command_id command), HandlerDisposable (command_id command) h]"
    by (simp add: registerCommand_Some_success)
  then show "case dispose d s of
         (c1, d1, s1) \<Rightarrow>
           (case dispose d1 s1 of
              (c2, d2, s2) \<Rightarrow> c1 = Return () \<and> c2 = Return () \<and> s2 = s1)"
    by simp
qed

theorem dispose_twice_when_registered_once_witness:
  "registerCommand emptyRegistry (exampleCommand ''X'') None
     = (Inr (CommandDisposable ''X''), registeredX)
   \<and> dispose (CommandDisposable ''X'') registeredX
       = (Return (), CommandDisposable ''X'', emptyRegistry)
   \<and> dispose (CommandDisposable ''X'') emptyRegistry
       = (Return (), CommandDisposable ''X'', emptyRegistry)
   \<and> registerHandler emptyRegistry ''X'' 2 = (Inr (HandlerDisposable ''X'' 2), handlersX [2])
   \<and> count_list (handlersOf (handlersX [2]) ''X'') 2 \<le> 1
   \<and> fst (dispose (HandlerDisposable ''X'' 2) (handlersX [2])) = Return ()
   \<and> fst (snd (dispose (HandlerDisposable ''X'' 2) (handlersX [2]))) = HandlerDisposable ''X'' 2
   \<and> snd (snd (dispose (HandlerDisposable ''X'' 2)
                  (snd (snd (dispose (HandlerDisposable ''X'' 2) (handlersX [2]))))))
       = snd (snd (dispose (HandlerDisposable ''X'' 2) (handlersX [2])))
   \<and> registerCommand emptyRegistry (exampleCommand ''X'') (Some 2)
       = (Inr (DisposableCollection [CommandDisposable ''X'', HandlerDisposable ''X'' 2]),
          registeredXWithHandler)
   \<and> fst (snd (dispose (DisposableCollection [CommandDisposable ''X'', HandlerDisposable ''X'' 2])
                  registeredXWithHandler))
       = DisposableCollection []
   \<and> snd (snd (dispose (DisposableCollection [])
                  (snd (snd (dispose
                               (DisposableCollection
                                  [CommandDisposable ''X'', HandlerDisposable ''X'' 2])
                               registeredXWithHandler)))))
       = snd (snd (dispose (DisposableCollection [CommandDisposable ''X'', HandlerDisposable ''X'' 2])
                     registeredXWithHandler))"
proof -
  let ?dh = "HandlerDisposable ''X'' 2"
  let ?dc = "DisposableCollection [CommandDisposable ''X'', HandlerDisposable ''X'' 2]"
  have e: "disposeCommand ''X'' registeredX = emptyRegistry"
    by (simp add: registeredX_eq disposeCommand_def emptyRegistry_def)
  have e': "disposeCommand ''X'' emptyRegistry = emptyRegistry"
    by (simp add: disposeCommand_def emptyRegistry_def)
  have rh: "registerHandler emptyRegistry ''X'' 2 = (Inr ?dh, handlersX [2])"
    by (simp add: handlersX_def registerHandler_plain X_not_inherited)
  have ch: "count_list (handlersOf (handlersX [2]) ''X'') 2 \<le> 1"
    by (simp add: handlersOf_def handlersX_X)
  note t = dispose_twice_when_registered_once
  from t[where r = emptyRegistry and command = "exampleCommand ''X''"
           and d = "CommandDisposable ''X''" and ?r1.0 = registeredX and s = registeredX,
         THEN conjunct1, rule_format, OF registerCommand_example]
  have a: "dispose (CommandDisposable ''X'') registeredX
             = (Return (), CommandDisposable ''X'', emptyRegistry)
           \<and> dispose (CommandDisposable ''X'') emptyRegistry
             = (Return (), CommandDisposable ''X'', emptyRegistry)"
    by (simp add: e e')
  from t[where r = emptyRegistry and cid = "''X''" and h = 2 and d = ?dh
           and ?r1.0 = "handlersX [2]" and s = "handlersX [2]",
         THEN conjunct2, THEN conjunct1, rule_format, OF rh] ch
  have b: "fst (dispose ?dh (handlersX [2])) = Return ()
           \<and> fst (snd (dispose ?dh (handlersX [2]))) = ?dh
           \<and> snd (snd (dispose ?dh (snd (snd (dispose ?dh (handlersX [2]))))))
               = snd (snd (dispose ?dh (handlersX [2])))"
    by (simp split: prod.splits)
  from t[where r = emptyRegistry and command = "exampleCommand ''X''" and h = 2 and d = ?dc
           and ?r1.0 = registeredXWithHandler and s = registeredXWithHandler,
         THEN conjunct2, THEN conjunct2, rule_format, OF registerCommand_example_with_handler]
  have c: "fst (snd (dispose ?dc registeredXWithHandler)) = DisposableCollection []
           \<and> snd (snd (dispose (DisposableCollection [])
                          (snd (snd (dispose ?dc registeredXWithHandler)))))
               = snd (snd (dispose ?dc registeredXWithHandler))"
    by (simp split: prod.splits)
  from registerCommand_example a rh ch b registerCommand_example_with_handler c
  show ?thesis by (intro conjI) simp_all
qed

text \<open>
  C7. \<^verbatim>\<open>registerCommand(cmd, h)\<close> on an id without handlers stores the Command and
  leaves \<open>h\<close> as the only handler of the id. Releasing the composite while \<open>h\<close> is still
  the only handler of the id removes both, in whichever order the two children are
  released: the release returns normally, and afterwards \<^verbatim>\<open>getCommand\<close> and
  \<^verbatim>\<open>getActiveHandler\<close> find nothing for the id.
\<close>

theorem dispose_composite_removes_both:
  "registerCommand r command (Some h) = (Inr d, r1) \<Longrightarrow>
     getCommand r1 (command_id command) = Own command
     \<and> (handlersOf r (command_id command) = [] \<longrightarrow> handlersOf r1 (command_id command) = [h])
     \<and> (\<exists>ds. d = DisposableCollection ds
          \<and> (\<forall>s. handlersOf s (command_id command) = [h] \<longrightarrow>
               (case dispose (DisposableCollection ds) s of
                  (c, d', s') \<Rightarrow>
                    c = Return ()
                    \<and> getCommand s' (command_id command) = Undefined
                    \<and> (\<forall>args. getActiveHandler st s' (command_id command) args = Return None))
               \<and> (case dispose (DisposableCollection (rev ds)) s of
                  (c, d', s') \<Rightarrow>
                    c = Return ()
                    \<and> getCommand s' (command_id command) = Undefined
                    \<and> (\<forall>args. getActiveHandler st s' (command_id command) args = Return None))))"
proof -
  let ?k = "command_id command"
  let ?ds = "[CommandDisposable ?k, HandlerDisposable ?k h]"
  assume reg: "registerCommand r command (Some h) = (Inr d, r1)"
  note s = registerCommand_Some_success[OF reg]
  from s have d: "d = DisposableCollection ?ds" by simp
  from s have "getCommand r ?k = Undefined" by simp
  then have p: "?k \<notin> set Object_prototype_names"
    by (rule getCommand_Undefined_D)
  from s have c: "getCommand r1 ?k = Own command"
    by (simp add: getCommand_def getProperty_def update_conv')
  from s have l: "handlersOf r ?k = [] \<longrightarrow> handlersOf r1 ?k = [h]"
    by (simp add: handlersOf_def)
  have rel: "(case dispose (DisposableCollection ?ds) t of
                  (c, d', s') \<Rightarrow>
                    c = Return ()
                    \<and> getCommand s' ?k = Undefined
                    \<and> (\<forall>args. getActiveHandler st s' ?k args = Return None))
               \<and> (case dispose (DisposableCollection (rev ?ds)) t of
                  (c, d', s') \<Rightarrow>
                    c = Return ()
                    \<and> getCommand s' ?k = Undefined
                    \<and> (\<forall>args. getActiveHandler st s' ?k args = Return None))"
    if only: "handlersOf t ?k = [h]" for t
  proof -
    from only have u: "u_handlers t ?k = Some [h]"
      by (simp add: handlersOf_def split: option.splits)
    from p have c1: "getCommand (disposeHandler ?k h (disposeCommand ?k t)) ?k = Undefined"
      by (simp add: getCommand_disposeHandler getCommand_disposeCommand)
    from p have c2: "getCommand (disposeCommand ?k (disposeHandler ?k h t)) ?k = Undefined"
      by (simp add: getCommand_disposeCommand)
    from u have h1: "u_handlers (disposeHandler ?k h (disposeCommand ?k t)) ?k = Some []"
      by (simp add: disposeHandler_handlers disposeCommand_handlers)
    from u have h2: "u_handlers (disposeCommand ?k (disposeHandler ?k h t)) ?k = Some []"
      by (simp add: disposeHandler_handlers disposeCommand_handlers)
    have a1: "\<forall>args. getActiveHandler st (disposeHandler ?k h (disposeCommand ?k t)) ?k args
                        = Return None"
      by (simp add: getActiveHandler_stored[OF h1])
    have a2: "\<forall>args. getActiveHandler st (disposeCommand ?k (disposeHandler ?k h t)) ?k args
                        = Return None"
      by (simp add: getActiveHandler_stored[OF h2])
    from c1 c2 a1 a2 show ?thesis by simp
  qed
  from d c l rel show ?thesis by blast
qed

theorem dispose_composite_removes_both_witness:
  "registerCommand emptyRegistry (exampleCommand ''X'') (Some 2)
     = (Inr (DisposableCollection [CommandDisposable ''X'', HandlerDisposable ''X'' 2]),
        registeredXWithHandler)
   \<and> handlersOf emptyRegistry ''X'' = []
   \<and> getCommand registeredXWithHandler ''X'' = Own (exampleCommand ''X'')
   \<and> handlersOf registeredXWithHandler ''X'' = [2]
   \<and> getActiveHandler exampleStore registeredXWithHandler ''X'' [] = Return (Some 2)
   \<and> dispose (DisposableCollection [CommandDisposable ''X'', HandlerDisposable ''X'' 2])
        registeredXWithHandler
       = (Return (), DisposableCollection [],
          disposeHandler ''X'' 2 (disposeCommand ''X'' registeredXWithHandler))
   \<and> getCommand (disposeHandler ''X'' 2 (disposeCommand ''X'' registeredXWithHandler)) ''X''
       = Undefined
   \<and> getActiveHandler exampleStore
        (disposeHandler ''X'' 2 (disposeCommand ''X'' registeredXWithHandler)) ''X'' []
       = Return None
   \<and> dispose (DisposableCollection [HandlerDisposable ''X'' 2, CommandDisposable ''X''])
        registeredXWithHandler
       = (Return (), DisposableCollection [],
          disposeCommand ''X'' (disposeHandler ''X'' 2 registeredXWithHandler))
   \<and> getCommand (disposeCommand ''X'' (disposeHandler ''X'' 2 registeredXWithHandler)) ''X''
       = Undefined
   \<and> getActiveHandler exampleStore
        (disposeCommand ''X'' (disposeHandler ''X'' 2 registeredXWithHandler)) ''X'' []
       = Return None"
proof -
  let ?ds = "[CommandDisposable ''X'', HandlerDisposable ''X'' 2]"
  have i: "command_id (exampleCommand ''X'') = ''X''"
    by (simp add: exampleCommand_def)
  have e: "handlersOf emptyRegistry ''X'' = []"
    by (simp add: handlersOf_def emptyRegistry_def)
  have g: "getActiveHandler exampleStore registeredXWithHandler ''X'' [] = Return (Some 2)"
    by (simp add: getActiveHandler_def getProperty_def registeredXWithHandler_eq
          exampleStore_def)
  note t = dispose_composite_removes_both[OF registerCommand_example_with_handler,
             of exampleStore, unfolded i]
  note c = t[THEN conjunct1]
  note l = t[THEN conjunct2, THEN conjunct1, rule_format, OF e]
  from t[THEN conjunct2, THEN conjunct2] obtain ds where
    ds: "DisposableCollection ?ds = DisposableCollection ds"
    and r: "\<forall>s. handlersOf s ''X'' = [2] \<longrightarrow>
               (case dispose (DisposableCollection ds) s of
                  (c, d', s') \<Rightarrow>
                    c = Return ()
                    \<and> getCommand s' ''X'' = Undefined
                    \<and> (\<forall>args. getActiveHandler exampleStore s' ''X'' args = Return None))
               \<and> (case dispose (DisposableCollection (rev ds)) s of
                  (c, d', s') \<Rightarrow>
                    c = Return ()
                    \<and> getCommand s' ''X'' = Undefined
                    \<and> (\<forall>args. getActiveHandler exampleStore s' ''X'' args = Return None))"
    by (elim exE conjE)
  from ds have ds': "ds = ?ds" by simp
  note r' = r[rule_format, OF l, unfolded ds']
  from r'[THEN conjunct1]
  have f: "getCommand (disposeHandler ''X'' 2 (disposeCommand ''X'' registeredXWithHandler)) ''X''
             = Undefined
           \<and> getActiveHandler exampleStore
               (disposeHandler ''X'' 2 (disposeCommand ''X'' registeredXWithHandler)) ''X'' []
             = Return None"
    by simp
  from r'[THEN conjunct2]
  have b: "getCommand (disposeCommand ''X'' (disposeHandler ''X'' 2 registeredXWithHandler)) ''X''
             = Undefined
           \<and> getActiveHandler exampleStore
               (disposeCommand ''X'' (disposeHandler ''X'' 2 registeredXWithHandler)) ''X'' []
             = Return None"
    by simp
  from registerCommand_example_with_handler e c l g f b
  show ?thesis by (intro conjI) simp_all
qed

end
